theory Spec2Isabelle
  imports Complex_Main "HOL-Library.AList" "HOL-Library.Sublist"
begin

section \<open>Data model of the trip cart (stores/trip-cart)\<close>

text \<open>
  The interfaces \<^verbatim>\<open>LogisticsEntry\<close> and \<^verbatim>\<open>CartPlace\<close>. The CMS schema declares
  \<^verbatim>\<open>drive_time_mins\<close> with \<^verbatim>\<open>fields.integer\<close>, so drive times are integers;
  \<^verbatim>\<open>distance_km\<close> and \<^verbatim>\<open>googleRating\<close> are arbitrary numbers, kept as rationals.
  The fields \<^verbatim>\<open>id\<close> and \<^verbatim>\<open>image\<close> carry a prime, since both names are taken in HOL.
  \<^verbatim>\<open>googleRating: number | null\<close> and the optional \<^verbatim>\<open>image\<close> are options.
\<close>

record LogisticsEntry =
  hub_name :: string
  hub_type :: string
  distance_km :: rat
  drive_time_mins :: int

record CartPlace =
  id' :: string
  name :: string
  category :: string
  subCategory :: string
  state :: string
  googleRating :: "rat option"
  image' :: "string option"
  logistics :: "LogisticsEntry list"

subsection \<open>Browser storage\<close>

text \<open>
  \<^verbatim>\<open>localStorage\<close> is a key-value store of strings. \<^verbatim>\<open>setItem\<close> may throw (quota
  exceeded, storage unavailable): whether a write is taken is decided by the browser from
  the present contents, the key and the value, which is the field \<open>accepts\<close>. A write
  that throws is the value \<open>None\<close> and leaves the contents as they were. \<^verbatim>\<open>getItem\<close>
  returns the stored string, or \<^verbatim>\<open>null\<close> (here \<open>None\<close>) for a key that is not there.
\<close>

record Storage =
  slots :: "string \<rightharpoonup> string"
  accepts :: "(string \<rightharpoonup> string) \<Rightarrow> string \<Rightarrow> string \<Rightarrow> bool"

definition getItem :: "Storage \<Rightarrow> string \<Rightarrow> string option" where
  "getItem st k = slots st k"

definition setItem :: "Storage \<Rightarrow> string \<Rightarrow> string \<Rightarrow> Storage option" where
  "setItem st k v =
     (if accepts st (slots st) k v then Some (st\<lparr>slots := (slots st)(k \<mapsto> v)\<rparr>) else None)"

text \<open>
  The three atoms \<^verbatim>\<open>$cartItems\<close>, \<^verbatim>\<open>$selectedHub\<close>, \<^verbatim>\<open>$sidebarOpen\<close>, together with
  the browser storage the actions write to.
\<close>

record Store =
  cartItems :: "CartPlace list"
  selectedHub :: string
  sidebarOpen :: bool
  localStorage :: Storage

definition initialStore :: "Storage \<Rightarrow> Store" where
  "initialStore st =
     \<lparr>cartItems = [], selectedHub = '''', sidebarOpen = False, localStorage = st\<rparr>"

text \<open>The part of the store that lives in memory.\<close>

definition memory :: "Store \<Rightarrow> CartPlace list \<times> string \<times> bool" where
  "memory s = (cartItems s, selectedHub s, sidebarOpen s)"

definition STORAGE_KEY :: string where
  "STORAGE_KEY = ''ne-trip-cart''"

definition HUB_KEY :: string where
  "HUB_KEY = ''ne-trip-hub''"

text \<open>JavaScript truthiness of a string that may be \<^verbatim>\<open>null\<close>: neither null nor empty.\<close>

fun truthy :: "string option \<Rightarrow> bool" where
  "truthy None = False"
| "truthy (Some v) = (v \<noteq> '''')"

subsection \<open>Derived view: the ranked hubs\<close>

text \<open>
  \<^verbatim>\<open>hubCount\<close> is a JavaScript \<^verbatim>\<open>Map\<close>, which iterates in insertion order and keeps
  the position of a key that is set again: an association list with \<open>AList.update\<close>.
  \<^verbatim>\<open>hubCount.get(k) ?? 0\<close> is \<open>hubCount_get\<close>.
\<close>

definition hubCount_get :: "(string \<times> nat) list \<Rightarrow> string \<Rightarrow> nat" where
  "hubCount_get m k = (case map_of m k of None \<Rightarrow> 0 | Some c \<Rightarrow> c)"

definition hubCount_bump :: "LogisticsEntry \<Rightarrow> (string \<times> nat) list \<Rightarrow> (string \<times> nat) list" where
  "hubCount_bump l m = AList.update (hub_name l) (hubCount_get m (hub_name l) + 1) m"

definition hubCount :: "CartPlace list \<Rightarrow> (string \<times> nat) list" where
  "hubCount items = fold (\<lambda>item m. fold hubCount_bump (logistics item) m) items []"

text \<open>
  \<^verbatim>\<open>[...hubCount.entries()].sort((a, b) => b[1] - a[1]).map(([name]) => name)\<close>:
  \<^verbatim>\<open>Array.prototype.sort\<close> is a stable sort, here by descending count, which is the
  stable insertion sort \<open>sort_key\<close> on the negated count.
\<close>

definition availableHubs :: "CartPlace list \<Rightarrow> string list" where
  "availableHubs items = map fst (sort_key (\<lambda>e. - int (snd e)) (hubCount items))"





definition before :: "'a list \<Rightarrow> 'a \<Rightarrow> 'a \<Rightarrow> bool" where
  "before xs x y = (x \<in> set (takeWhile (\<lambda>z. z \<noteq> y) xs))"


subsection \<open>Persistence\<close>

text \<open>
  \<^verbatim>\<open>JSON.stringify\<close> of an array is the bracketed, comma-separated list of the
  serialised elements; the serialisation of one place (\<open>enc\<close>) and \<^verbatim>\<open>JSON.parse\<close>
  (\<open>parse\<close>, \<open>None\<close> when it throws) belong to the JavaScript runtime and are parameters.
\<close>

fun join_commas :: "string list \<Rightarrow> string" where
  "join_commas [] = ''''"
| "join_commas [x] = x"
| "join_commas (x # y # ys) = x @ '','' @ join_commas (y # ys)"

definition JSON_stringify :: "(CartPlace \<Rightarrow> string) \<Rightarrow> CartPlace list \<Rightarrow> string" where
  "JSON_stringify enc items = ''['' @ join_commas (map enc items) @ '']''"

definition saveToStorage :: "(CartPlace \<Rightarrow> string) \<Rightarrow> CartPlace list \<Rightarrow> Store \<Rightarrow> Store" where
  "saveToStorage enc items s =
     (case setItem (localStorage s) STORAGE_KEY (JSON_stringify enc items) of
        Some st \<Rightarrow> s\<lparr>localStorage := st\<rparr>
      | None \<Rightarrow> s)"

definition saveHubToStorage :: "string \<Rightarrow> Store \<Rightarrow> Store" where
  "saveHubToStorage hub s =
     (case setItem (localStorage s) HUB_KEY hub of
        Some st \<Rightarrow> s\<lparr>localStorage := st\<rparr>
      | None \<Rightarrow> s)"

text \<open>
  The body of the \<^verbatim>\<open>try\<close> block of \<^verbatim>\<open>loadFromStorage\<close>: \<open>Inl\<close> is the store at the
  moment \<^verbatim>\<open>JSON.parse\<close> throws, \<open>Inr\<close> the store when the block runs to its end.
  The empty \<^verbatim>\<open>catch\<close> keeps the store in either case.
\<close>

definition loadFromStorage_try :: "(string \<Rightarrow> CartPlace list option) \<Rightarrow> Store \<Rightarrow> Store + Store" where
  "loadFromStorage_try parse s =
     (let raw = getItem (localStorage s) STORAGE_KEY in
      case (if truthy raw
            then (case parse (the raw) of
                    None \<Rightarrow> Inl s
                  | Some items \<Rightarrow> Inr (s\<lparr>cartItems := items\<rparr>))
            else Inr s) of
        Inl s1 \<Rightarrow> Inl s1
      | Inr s1 \<Rightarrow>
          (let hub = getItem (localStorage s1) HUB_KEY in
           if truthy hub then Inr (s1\<lparr>selectedHub := the hub\<rparr>) else Inr s1))"

definition loadFromStorage :: "(string \<Rightarrow> CartPlace list option) \<Rightarrow> Store \<Rightarrow> Store" where
  "loadFromStorage parse s =
     (case loadFromStorage_try parse s of Inl s1 \<Rightarrow> s1 | Inr s1 \<Rightarrow> s1)"

subsection \<open>Actions\<close>

definition addToCart :: "(CartPlace \<Rightarrow> string) \<Rightarrow> CartPlace \<Rightarrow> Store \<Rightarrow> Store" where
  "addToCart enc place s =
     (let current = cartItems s in
      if list_ex (\<lambda>p. id' p = id' place) current then s
      else
        let next = current @ [place];
            s1 = saveToStorage enc next (s\<lparr>cartItems := next\<rparr>);
            s2 = (if selectedHub s1 = '''' then
                    (case availableHubs (cartItems s1) of
                       [] \<Rightarrow> s1
                     | h # _ \<Rightarrow> saveHubToStorage h (s1\<lparr>selectedHub := h\<rparr>))
                  else s1)
        in s2\<lparr>sidebarOpen := True\<rparr>)"

definition removeFromCart :: "(CartPlace \<Rightarrow> string) \<Rightarrow> string \<Rightarrow> Store \<Rightarrow> Store" where
  "removeFromCart enc i s =
     (let next = filter (\<lambda>p. id' p \<noteq> i) (cartItems s)
      in saveToStorage enc next (s\<lparr>cartItems := next\<rparr>))"

definition clearCart :: "(CartPlace \<Rightarrow> string) \<Rightarrow> Store \<Rightarrow> Store" where
  "clearCart enc s =
     saveHubToStorage '''' (saveToStorage enc [] (s\<lparr>cartItems := [], selectedHub := ''''\<rparr>))"

definition toggleSidebar :: "Store \<Rightarrow> Store" where
  "toggleSidebar s = s\<lparr>sidebarOpen := \<not> sidebarOpen s\<rparr>"

definition selectHub :: "string \<Rightarrow> Store \<Rightarrow> Store" where
  "selectHub hub s = saveHubToStorage hub (s\<lparr>selectedHub := hub\<rparr>)"

subsection \<open>Derived view: total drive minutes\<close>

text \<open>
  The loop of \<^verbatim>\<open>$totalDriveMins\<close>, with its accumulator \<^verbatim>\<open>total\<close> (here \<open>tot\<close>).
  \<^verbatim>\<open>item.logistics.find(...)\<close> is the first match or \<^verbatim>\<open>undefined\<close>.
\<close>

fun totalDriveLoop :: "string \<Rightarrow> CartPlace list \<Rightarrow> int \<Rightarrow> int" where
  "totalDriveLoop hub [] tot = tot"
| "totalDriveLoop hub (item # rest) tot =
     totalDriveLoop hub rest
       (case find (\<lambda>x. hub_name x = hub) (logistics item) of
          Some l \<Rightarrow> tot + drive_time_mins l
        | None \<Rightarrow> tot)"

definition totalDriveMins :: "CartPlace list \<Rightarrow> string \<Rightarrow> int" where
  "totalDriveMins items hub = (if hub = '''' then 0 else totalDriveLoop hub items 0)"

text \<open>
  The total as the specification words it, to be compared with the loop: the sum, over
  the entries that have a logistics entry for the hub, of the drive time of that entry
  (the first one, should an entry list the hub twice).
\<close>

definition matchingLogistics :: "string \<Rightarrow> CartPlace \<Rightarrow> LogisticsEntry list" where
  "matchingLogistics h item = filter (\<lambda>l. hub_name l = h) (logistics item)"

definition spec_totalDriveMins :: "CartPlace list \<Rightarrow> string \<Rightarrow> int" where
  "spec_totalDriveMins items h =
     sum_list (map (\<lambda>item. drive_time_mins (hd (matchingLogistics h item)))
                   (filter (\<lambda>item. matchingLogistics h item \<noteq> []) items))"

section \<open>Itinerary formatter (lib/whatsapp-formatter, lib/hub-utils)\<close>

text \<open>Decimal rendering of integers, as a template literal renders them.\<close>

definition digit :: "nat \<Rightarrow> char" where
  "digit d = ''0123456789'' ! d"

function showNat :: "nat \<Rightarrow> string" where
  "showNat n = (if n < 10 then [digit n] else showNat (n div 10) @ [digit (n mod 10)])"
  by pat_completeness auto
termination
  by (relation "measure (\<lambda>n. n)") auto

declare showNat.simps [simp del]

definition showInt :: "int \<Rightarrow> string" where
  "showInt i = (if i < 0 then ''-'' @ showNat (nat (- i)) else showNat (nat i))"

definition fmtDrive :: "int \<Rightarrow> string" where
  "fmtDrive mins =
     (if mins < 60 then showInt mins @ '' min''
      else
        let h = mins div 60; m = mins mod 60
        in if m > 0 then showInt h @ ''h '' @ showInt m @ ''m'' else showInt h @ ''h'')"

text \<open>
  One line of a place. \<^verbatim>\<open>if (p.googleRating)\<close> holds for a rating that is neither
  \<^verbatim>\<open>null\<close> nor zero. How the runtime prints a number that need not be an integer is
  the parameter \<open>showNumber\<close>.
\<close>

definition placeLine :: "(rat \<Rightarrow> string) \<Rightarrow> string \<Rightarrow> CartPlace \<Rightarrow> string" where
  "placeLine showNumber hub p =
     (let line0 = ''  - '' @ name p @ '' ['' @ category p @ '']'';
          line1 = (case googleRating p of
                     None \<Rightarrow> line0
                   | Some r \<Rightarrow> if r \<noteq> 0 then line0 @ '' '' @ showNumber r else line0)
      in if hub \<noteq> '''' then
           (case find (\<lambda>x. hub_name x = hub) (logistics p) of
              Some l \<Rightarrow> line1 @ '' | '' @ fmtDrive (drive_time_mins l) @ '' drive''
            | None \<Rightarrow> line1)
         else line1)"

definition groupLines :: "(rat \<Rightarrow> string) \<Rightarrow> string \<Rightarrow> string \<times> CartPlace list \<Rightarrow> string list" where
  "groupLines showNumber hub g =
     (''*'' @ fst g @ ''* ('' @ showNat (length (snd g)) @ '' places)'')
       # map (placeLine showNumber hub) (snd g) @ ['''']"

text \<open>\<^verbatim>\<open>lines.join("\n")\<close>\<close>

fun join_lines :: "string list \<Rightarrow> string" where
  "join_lines [] = ''''"
| "join_lines [x] = x"
| "join_lines (x # y # ys) = x @ [CHR 0x0A] @ join_lines (y # ys)"

text \<open>
  The argument \<open>groups\<close> is the record \<^verbatim>\<open>groups\<close> as \<^verbatim>\<open>Object.entries\<close> lists it:
  the pairs of a state and its places, in iteration order.
\<close>

definition formatItineraryForWhatsApp ::
  "(rat \<Rightarrow> string) \<Rightarrow> (string \<times> CartPlace list) list \<Rightarrow> string \<Rightarrow> int \<Rightarrow> string" where
  "formatItineraryForWhatsApp showNumber groups hub totalMins =
     join_lines
       ([''*My Northeast India Trip*'', '''']
        @ (if hub \<noteq> '''' then
             [''Starting from: '' @ hub,
              ''Total drive time: '' @ fmtDrive totalMins @ '' (approx.)'',
              '''']
           else [])
        @ concat (map (groupLines showNumber hub) groups)
        @ [''Planned with Northeast Explorer''])"

section \<open>Proximity engine (TripPlannerMap)\<close>

text \<open>The haversine distance, over the real numbers.\<close>

definition haversine :: "real \<Rightarrow> real \<Rightarrow> real \<Rightarrow> real \<Rightarrow> real" where
  "haversine lat1 lon1 lat2 lon2 =
     (let R = 6371;
          dLat = ((lat2 - lat1) * pi) / 180;
          dLon = ((lon2 - lon1) * pi) / 180;
          a = (sin (dLat / 2))\<^sup>2
              + cos ((lat1 * pi) / 180) * cos ((lat2 * pi) / 180) * (sin (dLon / 2))\<^sup>2
      in R * 2 * arcsin (sqrt a))"

section \<open>Sample data\<close>

text \<open>
  Values on which the model is evaluated: a storage that takes every write, one that
  refuses every write while still holding an earlier hub, one whose cart text is cut
  short, stand-ins for the runtime's serialisation of a place, for \<^verbatim>\<open>JSON.parse\<close>
  (it reads the empty array and throws on everything else) and for the printing of a
  rating with one decimal digit, and the two places of the end-to-end scenario.
\<close>

definition open_storage :: Storage where
  "open_storage = \<lparr>slots = Map.empty, accepts = (\<lambda>m k v. True)\<rparr>"

definition stale_storage :: Storage where
  "stale_storage =
     \<lparr>slots = [HUB_KEY \<mapsto> ''Guwahati Airport''], accepts = (\<lambda>m k v. False)\<rparr>"

definition corrupt_storage :: Storage where
  "corrupt_storage =
     \<lparr>slots = [STORAGE_KEY \<mapsto> ''[{'', HUB_KEY \<mapsto> ''Guwahati Airport''],
      accepts = (\<lambda>m k v. True)\<rparr>"

definition sample_enc :: "CartPlace \<Rightarrow> string" where
  "sample_enc p = id' p"

definition sample_parse :: "string \<Rightarrow> CartPlace list option" where
  "sample_parse raw = (if raw = ''[]'' then Some [] else None)"

definition sample_show :: "rat \<Rightarrow> string" where
  "sample_show r =
     (let t = \<lfloor>r * 10\<rfloor>
      in showInt (t div 10) @ (if t mod 10 = 0 then '''' else ''.'' @ showInt (t mod 10)))"

definition guwahati_30 :: LogisticsEntry where
  "guwahati_30 =
     \<lparr>hub_name = ''Guwahati Airport'', hub_type = ''airport'',
      distance_km = 25, drive_time_mins = 30\<rparr>"

definition P1 :: CartPlace where
  "P1 = \<lparr>id' = ''p1'', name = ''Kamakhya Temple'', category = ''Spiritual'',
          subCategory = ''Temple'', state = ''Assam'', googleRating = Some (9 / 2),
          image' = None, logistics = [guwahati_30]\<rparr>"

definition P2 :: CartPlace where
  "P2 = \<lparr>id' = ''p2'', name = ''Elephant Falls'', category = ''Waterfall'',
          subCategory = ''Falls'', state = ''Meghalaya'', googleRating = None,
          image' = None, logistics = []\<rparr>"

definition dibrugarh_40 :: LogisticsEntry where
  "dibrugarh_40 =
     \<lparr>hub_name = ''Dibrugarh Airport'', hub_type = ''airport'',
      distance_km = 30, drive_time_mins = 40\<rparr>"

definition P3 :: CartPlace where
  "P3 = \<lparr>id' = ''p3'', name = ''Kaziranga National Park'', category = ''Wildlife & Nature'',
          subCategory = ''National Park'', state = ''Assam'', googleRating = Some (47 / 10),
          image' = None, logistics = [guwahati_30, dibrugarh_40]\<rparr>"





section \<open>Persistence never touches the memory\<close>

lemma memory_saveToStorage: "memory (saveToStorage enc items s) = memory s"
  by (simp add: saveToStorage_def memory_def split: option.splits)

lemma memory_saveHubToStorage: "memory (saveHubToStorage hub s) = memory s"
  by (simp add: saveHubToStorage_def memory_def split: option.splits)

lemma cartItems_saveToStorage: "cartItems (saveToStorage enc items s) = cartItems s"
  using memory_saveToStorage [of enc items s] by (simp add: memory_def)

lemma selectedHub_saveToStorage: "selectedHub (saveToStorage enc items s) = selectedHub s"
  using memory_saveToStorage [of enc items s] by (simp add: memory_def)

lemma sidebarOpen_saveToStorage: "sidebarOpen (saveToStorage enc items s) = sidebarOpen s"
  using memory_saveToStorage [of enc items s] by (simp add: memory_def)

lemma cartItems_saveHubToStorage: "cartItems (saveHubToStorage hub s) = cartItems s"
  using memory_saveHubToStorage [of hub s] by (simp add: memory_def)

lemma selectedHub_saveHubToStorage: "selectedHub (saveHubToStorage hub s) = selectedHub s"
  using memory_saveHubToStorage [of hub s] by (simp add: memory_def)

lemma sidebarOpen_saveHubToStorage: "sidebarOpen (saveHubToStorage hub s) = sidebarOpen s"
  using memory_saveHubToStorage [of hub s] by (simp add: memory_def)

lemmas save_frame =
  cartItems_saveToStorage selectedHub_saveToStorage sidebarOpen_saveToStorage
  cartItems_saveHubToStorage selectedHub_saveHubToStorage sidebarOpen_saveHubToStorage

lemma memory_update_storage: "memory (s\<lparr>localStorage := st\<rparr>) = memory s"
  by (simp add: memory_def)

lemma memory_eqD:
  "memory s = memory t \<Longrightarrow>
     cartItems s = cartItems t \<and> selectedHub s = selectedHub t \<and> sidebarOpen s = sidebarOpen t"
  by (simp add: memory_def)

lemma memory_addToCart:
  assumes "memory s = memory t"
  shows "memory (addToCart enc p s) = memory (addToCart enc p t)"
  using memory_eqD [OF assms] assms
  by (auto simp: addToCart_def Let_def memory_def save_frame split: list.splits)

lemma memory_removeFromCart:
  assumes "memory s = memory t"
  shows "memory (removeFromCart enc i s) = memory (removeFromCart enc i t)"
  using memory_eqD [OF assms]
  by (simp add: removeFromCart_def Let_def memory_saveToStorage) (simp add: memory_def)

lemma memory_clearCart: "memory (clearCart enc s) = ([], '''', sidebarOpen s)"
  by (simp add: clearCart_def memory_saveToStorage memory_saveHubToStorage)
     (simp add: memory_def)

lemma memory_selectHub: "memory (selectHub hub s) = (cartItems s, hub, sidebarOpen s)"
  by (simp add: selectHub_def memory_saveHubToStorage) (simp add: memory_def)

lemmas hub_eval = availableHubs_def hubCount_def hubCount_bump_def hubCount_get_def

lemmas store_defs =
  saveToStorage_def saveHubToStorage_def setItem_def getItem_def JSON_stringify_def

section \<open>The actions of the store\<close>

lemma list_ex_id: "list_ex (\<lambda>q. id' q = i) xs \<longleftrightarrow> i \<in> id' ` set xs"
  by (auto simp: list_ex_iff)

lemma cartItems_addToCart:
  "cartItems (addToCart enc p s) =
     (if id' p \<in> id' ` set (cartItems s) then cartItems s else cartItems s @ [p])"
  by (auto simp: addToCart_def Let_def list_ex_id save_frame split: list.splits)

text \<open>
  Claim C3. \<^verbatim>\<open>addToCart(p)\<close> on a cart that already holds an entry with the id of
  \<open>p\<close> returns the store as it was: entries, selected hub, sidebar flag and storage.
  On a cart without that id it appends \<open>p\<close> at the end and opens the sidebar; a hub
  that was selected stays, and with no hub selected the selected hub becomes the first of
  the ranked hubs of the new cart (and stays empty when the new cart names no hub).
\<close>

theorem addToCart_spec:
  "(id' p \<in> id' ` set (cartItems s) \<longrightarrow> addToCart enc p s = s) \<and>
   (id' p \<notin> id' ` set (cartItems s) \<longrightarrow>
      cartItems (addToCart enc p s) = cartItems s @ [p] \<and>
      sidebarOpen (addToCart enc p s) \<and>
      (selectedHub s \<noteq> '''' \<longrightarrow> selectedHub (addToCart enc p s) = selectedHub s) \<and>
      (selectedHub s = '''' \<longrightarrow>
         selectedHub (addToCart enc p s) =
           (case availableHubs (cartItems s @ [p]) of [] \<Rightarrow> '''' | h # _ \<Rightarrow> h)))"
  by (auto simp: addToCart_def Let_def list_ex_id save_frame split: list.splits)

theorem addToCart_spec_witness:
  "id' P1 \<notin> id' ` set (cartItems (initialStore open_storage)) \<and>
   selectedHub (initialStore open_storage) = '''' \<and>
   cartItems (addToCart sample_enc P1 (initialStore open_storage)) = [P1] \<and>
   sidebarOpen (addToCart sample_enc P1 (initialStore open_storage)) \<and>
   selectedHub (addToCart sample_enc P1 (initialStore open_storage)) = ''Guwahati Airport'' \<and>
   id' P1 \<in> id' ` set (cartItems (addToCart sample_enc P1 (initialStore open_storage))) \<and>
   addToCart sample_enc P1 (addToCart sample_enc P1 (initialStore open_storage)) =
     addToCart sample_enc P1 (initialStore open_storage)"
  using addToCart_spec [of P1 "initialStore open_storage" sample_enc]
        addToCart_spec [of P1 "addToCart sample_enc P1 (initialStore open_storage)" sample_enc]
  by (simp add: initialStore_def hub_eval P1_def guwahati_30_def)

text \<open>
  Claim C5. \<^verbatim>\<open>removeFromCart(id)\<close> leaves the selected hub, the sidebar flag and the
  stored hub as they were; the entries left are exactly the entries whose id differs, in
  their former order (a subsequence of the former list); and when no entry has the id,
  the entry list is the former one.
\<close>

theorem removeFromCart_frame:
  "selectedHub (removeFromCart enc i s) = selectedHub s \<and>
   sidebarOpen (removeFromCart enc i s) = sidebarOpen s \<and>
   getItem (localStorage (removeFromCart enc i s)) HUB_KEY = getItem (localStorage s) HUB_KEY \<and>
   set (cartItems (removeFromCart enc i s)) = {p \<in> set (cartItems s). id' p \<noteq> i} \<and>
   subseq (cartItems (removeFromCart enc i s)) (cartItems s) \<and>
   (i \<notin> id' ` set (cartItems s) \<longrightarrow> cartItems (removeFromCart enc i s) = cartItems s)"
proof -
  have items: "cartItems (removeFromCart enc i s) = filter (\<lambda>p. id' p \<noteq> i) (cartItems s)"
    by (simp add: removeFromCart_def Let_def save_frame)
  have absent:
    "i \<notin> id' ` set (cartItems s) \<Longrightarrow> filter (\<lambda>p. id' p \<noteq> i) (cartItems s) = cartItems s"
    by (rule filter_True) auto
  have hubslot:
    "getItem (localStorage (removeFromCart enc i s)) HUB_KEY = getItem (localStorage s) HUB_KEY"
    by (simp add: removeFromCart_def Let_def store_defs STORAGE_KEY_def HUB_KEY_def)
  show ?thesis
    using absent hubslot by (simp add: items) (simp add: removeFromCart_def Let_def save_frame)
qed

theorem removeFromCart_frame_witness:
  "''p9'' \<notin> id' ` set (cartItems
     \<lparr>cartItems = [P1, P2], selectedHub = ''Guwahati Airport'', sidebarOpen = True,
      localStorage = open_storage\<rparr>) \<and>
   cartItems (removeFromCart sample_enc ''p9''
     \<lparr>cartItems = [P1, P2], selectedHub = ''Guwahati Airport'', sidebarOpen = True,
      localStorage = open_storage\<rparr>) = [P1, P2] \<and>
   selectedHub (removeFromCart sample_enc ''p9''
     \<lparr>cartItems = [P1, P2], selectedHub = ''Guwahati Airport'', sidebarOpen = True,
      localStorage = open_storage\<rparr>) = ''Guwahati Airport''"
  using removeFromCart_frame [of sample_enc "''p9''"
          "\<lparr>cartItems = [P1, P2], selectedHub = ''Guwahati Airport'', sidebarOpen = True,
            localStorage = open_storage\<rparr>"]
  by (simp add: P1_def P2_def)

text \<open>
  Claim C7. A write that throws inside \<^verbatim>\<open>saveToStorage\<close> or \<^verbatim>\<open>saveHubToStorage\<close>
  is swallowed: the function returns the store it was given. The memory (entries, selected
  hub, sidebar flag) after \<^verbatim>\<open>addToCart\<close>, \<^verbatim>\<open>removeFromCart\<close>, \<^verbatim>\<open>clearCart\<close> and
  \<^verbatim>\<open>selectHub\<close> is the same whatever the storage holds and whichever writes it takes
  or refuses.
\<close>

theorem persistence_failure_ignored:
  "(setItem (localStorage s) STORAGE_KEY (JSON_stringify enc items) = None \<longrightarrow>
      saveToStorage enc items s = s) \<and>
   (setItem (localStorage s) HUB_KEY hub = None \<longrightarrow> saveHubToStorage hub s = s) \<and>
   memory (addToCart enc p (s\<lparr>localStorage := st1\<rparr>)) =
     memory (addToCart enc p (s\<lparr>localStorage := st2\<rparr>)) \<and>
   memory (removeFromCart enc i (s\<lparr>localStorage := st1\<rparr>)) =
     memory (removeFromCart enc i (s\<lparr>localStorage := st2\<rparr>)) \<and>
   memory (clearCart enc (s\<lparr>localStorage := st1\<rparr>)) =
     memory (clearCart enc (s\<lparr>localStorage := st2\<rparr>)) \<and>
   memory (selectHub hub (s\<lparr>localStorage := st1\<rparr>)) =
     memory (selectHub hub (s\<lparr>localStorage := st2\<rparr>))"
proof -
  have eq: "memory (s\<lparr>localStorage := st1\<rparr>) = memory (s\<lparr>localStorage := st2\<rparr>)"
    by (simp add: memory_update_storage)
  have a: "setItem (localStorage s) STORAGE_KEY (JSON_stringify enc items) = None \<longrightarrow>
      saveToStorage enc items s = s"
    by (simp add: saveToStorage_def)
  have b: "setItem (localStorage s) HUB_KEY hub = None \<longrightarrow> saveHubToStorage hub s = s"
    by (simp add: saveHubToStorage_def)
  show ?thesis
    using a b memory_addToCart [OF eq] memory_removeFromCart [OF eq]
    by (simp add: memory_clearCart memory_selectHub)
qed

theorem persistence_failure_ignored_witness:
  "setItem stale_storage STORAGE_KEY (JSON_stringify sample_enc [P1]) = None \<and>
   setItem stale_storage HUB_KEY ''Guwahati Airport'' = None \<and>
   saveToStorage sample_enc [P1] (initialStore stale_storage) = initialStore stale_storage \<and>
   saveHubToStorage ''Guwahati Airport'' (initialStore stale_storage) =
     initialStore stale_storage \<and>
   memory (addToCart sample_enc P1 (initialStore stale_storage)) =
     memory (addToCart sample_enc P1 (initialStore open_storage)) \<and>
   memory (addToCart sample_enc P1 (initialStore stale_storage)) =
     ([P1], ''Guwahati Airport'', True)"
  using persistence_failure_ignored [of "initialStore stale_storage" sample_enc "[P1]"
          "''Guwahati Airport''" P1 stale_storage open_storage "''p1''"]
  by (simp add: addToCart_def Let_def memory_def store_defs initialStore_def hub_eval
        P1_def guwahati_30_def stale_storage_def open_storage_def)

text \<open>
  Claim C8. Every action keeps the ids of the entries pairwise distinct: from a cart with
  at most one entry per id, \<^verbatim>\<open>addToCart\<close>, \<^verbatim>\<open>removeFromCart\<close>, \<^verbatim>\<open>clearCart\<close>,
  \<^verbatim>\<open>selectHub\<close> and \<^verbatim>\<open>toggleSidebar\<close> each lead to such a cart.
\<close>

theorem distinct_ids_preserved:
  assumes "distinct (map id' (cartItems s))"
  shows "distinct (map id' (cartItems (addToCart enc p s))) \<and>
         distinct (map id' (cartItems (removeFromCart enc i s))) \<and>
         distinct (map id' (cartItems (clearCart enc s))) \<and>
         distinct (map id' (cartItems (selectHub hub s))) \<and>
         distinct (map id' (cartItems (toggleSidebar s)))"
proof -
  have add: "distinct (map id' (cartItems (addToCart enc p s)))"
    using assms by (simp add: cartItems_addToCart)
  have rem: "distinct (map id' (cartItems (removeFromCart enc i s)))"
    using assms by (simp add: removeFromCart_def Let_def save_frame distinct_map_filter)
  have clr: "distinct (map id' (cartItems (clearCart enc s)))"
    by (simp add: clearCart_def save_frame)
  have sel: "distinct (map id' (cartItems (selectHub hub s)))"
    using assms by (simp add: selectHub_def save_frame)
  have tog: "distinct (map id' (cartItems (toggleSidebar s)))"
    using assms by (simp add: toggleSidebar_def)
  from add rem clr sel tog show ?thesis by simp
qed

theorem distinct_ids_preserved_witness:
  "distinct (map id' (cartItems
     \<lparr>cartItems = [P1], selectedHub = '''', sidebarOpen = False, localStorage = open_storage\<rparr>)) \<and>
   distinct (map id' (cartItems (addToCart sample_enc P2
     \<lparr>cartItems = [P1], selectedHub = '''', sidebarOpen = False, localStorage = open_storage\<rparr>))) \<and>
   distinct (map id' (cartItems (addToCart sample_enc P1
     \<lparr>cartItems = [P1], selectedHub = '''', sidebarOpen = False, localStorage = open_storage\<rparr>))) \<and>
   cartItems (addToCart sample_enc P1
     \<lparr>cartItems = [P1], selectedHub = '''', sidebarOpen = False, localStorage = open_storage\<rparr>) = [P1]"
  using distinct_ids_preserved [of
          "\<lparr>cartItems = [P1], selectedHub = '''', sidebarOpen = False, localStorage = open_storage\<rparr>"
          sample_enc P2 "''p1''" "''Guwahati Airport''"]
        distinct_ids_preserved [of
          "\<lparr>cartItems = [P1], selectedHub = '''', sidebarOpen = False, localStorage = open_storage\<rparr>"
          sample_enc P1 "''p1''" "''Guwahati Airport''"]
  by (simp add: cartItems_addToCart P1_def)

section \<open>Reloading from storage\<close>

text \<open>
  Claim C10. When the cart slot holds a non-empty text on which \<^verbatim>\<open>JSON.parse\<close>
  throws, the \<^verbatim>\<open>try\<close> block of \<^verbatim>\<open>loadFromStorage\<close> ends there: the store is
  returned as it was, whatever the hub slot holds, so a fresh store keeps its empty entry
  list and its empty selected hub.
\<close>

theorem loadFromStorage_corrupt_cart:
  assumes "getItem (localStorage s) STORAGE_KEY = Some raw" and "raw \<noteq> ''''" and "parse raw = None"
  shows "loadFromStorage_try parse s = Inl s \<and> loadFromStorage parse s = s \<and>
         (s = initialStore st \<longrightarrow>
            cartItems (loadFromStorage parse s) = [] \<and> selectedHub (loadFromStorage parse s) = '''')"
proof -
  have t: "loadFromStorage_try parse s = Inl s"
    using assms by (simp add: loadFromStorage_try_def Let_def)
  then have l: "loadFromStorage parse s = s"
    by (simp add: loadFromStorage_def)
  show ?thesis
    unfolding l using t by (simp add: initialStore_def)
qed

theorem loadFromStorage_corrupt_cart_witness:
  "getItem (localStorage (initialStore corrupt_storage)) STORAGE_KEY = Some ''[{'' \<and>
   ''[{'' \<noteq> '''' \<and> sample_parse ''[{'' = None \<and>
   getItem (localStorage (initialStore corrupt_storage)) HUB_KEY = Some ''Guwahati Airport'' \<and>
   cartItems (loadFromStorage sample_parse (initialStore corrupt_storage)) = [] \<and>
   selectedHub (loadFromStorage sample_parse (initialStore corrupt_storage)) = ''''"
proof -
  have 1: "getItem (localStorage (initialStore corrupt_storage)) STORAGE_KEY = Some ''[{''"
    by (simp add: getItem_def initialStore_def corrupt_storage_def STORAGE_KEY_def HUB_KEY_def)
  have 2: "''[{'' \<noteq> ''''" by simp
  have 3: "sample_parse ''[{'' = None" by (simp add: sample_parse_def)
  have 4: "getItem (localStorage (initialStore corrupt_storage)) HUB_KEY = Some ''Guwahati Airport''"
    by (simp add: getItem_def initialStore_def corrupt_storage_def STORAGE_KEY_def HUB_KEY_def)
  from loadFromStorage_corrupt_cart
         [where s = "initialStore corrupt_storage" and raw = "''[{''" and parse = sample_parse
            and st = corrupt_storage, OF 1 2 3] 1 2 3 4
  show ?thesis by blast
qed

text \<open>
  Claim C4 fails as stated when the browser refuses the writes of \<^verbatim>\<open>clearCart\<close>:
  the storage keeps the hub written earlier, and a reload brings it back.
\<close>

theorem clearCart_reload_counterexample:
  "selectedHub (loadFromStorage sample_parse (initialStore (localStorage (clearCart sample_enc
     \<lparr>cartItems = [P1], selectedHub = ''Guwahati Airport'', sidebarOpen = True,
      localStorage = stale_storage\<rparr>)))) = ''Guwahati Airport''"
  by (simp add: loadFromStorage_def loadFromStorage_try_def Let_def initialStore_def
        clearCart_def store_defs stale_storage_def STORAGE_KEY_def HUB_KEY_def)

text \<open>
  Claim C4, amended. When both writes of \<^verbatim>\<open>clearCart\<close> are taken by the storage (and
  \<^verbatim>\<open>JSON.parse\<close> reads the text \<^verbatim>\<open>[]\<close> as the empty array), a fresh store
  reloaded from the storage left by \<^verbatim>\<open>clearCart\<close> has no entries and no selected hub,
  whatever the store and the storage held before.
\<close>

theorem clearCart_reload:
  assumes "setItem (localStorage s) STORAGE_KEY ''[]'' = Some st1"
      and "setItem st1 HUB_KEY '''' = Some st2"
      and "parse ''[]'' = Some []"
  shows "localStorage (clearCart enc s) = st2 \<and>
         cartItems (loadFromStorage parse (initialStore (localStorage (clearCart enc s)))) = [] \<and>
         selectedHub (loadFromStorage parse (initialStore (localStorage (clearCart enc s)))) = ''''"
proof -
  have st: "localStorage (clearCart enc s) = st2"
    using assms(1,2) by (simp add: clearCart_def saveToStorage_def saveHubToStorage_def JSON_stringify_def)
  have cart: "getItem st2 STORAGE_KEY = Some ''[]''"
    using assms(1,2) by (auto simp: setItem_def getItem_def STORAGE_KEY_def HUB_KEY_def split: if_splits)
  have hub: "getItem st2 HUB_KEY = Some ''''"
    using assms(2) by (auto simp: setItem_def getItem_def split: if_splits)
  show ?thesis
    using cart hub assms(3)
    by (simp add: st loadFromStorage_def loadFromStorage_try_def Let_def initialStore_def)
qed

theorem clearCart_reload_witness:
  "setItem (localStorage \<lparr>cartItems = [P1], selectedHub = ''Guwahati Airport'', sidebarOpen = True,
      localStorage = corrupt_storage\<rparr>) STORAGE_KEY ''[]'' =
     Some (corrupt_storage\<lparr>slots := (slots corrupt_storage)(STORAGE_KEY \<mapsto> ''[]'')\<rparr>) \<and>
   setItem (corrupt_storage\<lparr>slots := (slots corrupt_storage)(STORAGE_KEY \<mapsto> ''[]'')\<rparr>) HUB_KEY '''' =
     Some (corrupt_storage\<lparr>slots := (slots corrupt_storage)(STORAGE_KEY \<mapsto> ''[]'', HUB_KEY \<mapsto> '''')\<rparr>) \<and>
   sample_parse ''[]'' = Some [] \<and>
   cartItems (loadFromStorage sample_parse (initialStore (localStorage (clearCart sample_enc
     \<lparr>cartItems = [P1], selectedHub = ''Guwahati Airport'', sidebarOpen = True,
      localStorage = corrupt_storage\<rparr>)))) = [] \<and>
   selectedHub (loadFromStorage sample_parse (initialStore (localStorage (clearCart sample_enc
     \<lparr>cartItems = [P1], selectedHub = ''Guwahati Airport'', sidebarOpen = True,
      localStorage = corrupt_storage\<rparr>)))) = ''''"
proof -
  have 1: "setItem (localStorage \<lparr>cartItems = [P1], selectedHub = ''Guwahati Airport'', sidebarOpen = True,
      localStorage = corrupt_storage\<rparr>) STORAGE_KEY ''[]'' =
     Some (corrupt_storage\<lparr>slots := (slots corrupt_storage)(STORAGE_KEY \<mapsto> ''[]'')\<rparr>)"
    by (simp add: setItem_def corrupt_storage_def)
  have 2: "setItem (corrupt_storage\<lparr>slots := (slots corrupt_storage)(STORAGE_KEY \<mapsto> ''[]'')\<rparr>) HUB_KEY '''' =
     Some (corrupt_storage\<lparr>slots := (slots corrupt_storage)(STORAGE_KEY \<mapsto> ''[]'', HUB_KEY \<mapsto> '''')\<rparr>)"
    by (simp add: setItem_def corrupt_storage_def)
  have 3: "sample_parse ''[]'' = Some []" by (simp add: sample_parse_def)
  from clearCart_reload [where parse = sample_parse and enc = sample_enc, OF 1 2 3] 1 2 3
  show ?thesis by blast
qed

section \<open>Total drive minutes\<close>

lemma find_filter_hd:
  "find P xs = (case filter P xs of [] \<Rightarrow> None | y # _ \<Rightarrow> Some y)"
  by (induction xs) auto

lemma totalDriveLoop_acc:
  "totalDriveLoop h items tot = tot + spec_totalDriveMins items h"
proof (induction items arbitrary: tot)
  case Nil
  show ?case by (simp add: spec_totalDriveMins_def)
next
  case (Cons item rest)
  have step: "spec_totalDriveMins (item # rest) h =
      (case find (\<lambda>x. hub_name x = h) (logistics item) of
         Some l \<Rightarrow> drive_time_mins l | None \<Rightarrow> 0) + spec_totalDriveMins rest h"
    by (simp add: spec_totalDriveMins_def matchingLogistics_def find_filter_hd split: list.splits)
  show ?case
    by (simp add: Cons.IH step split: option.splits)
qed

lemma find_unique:
  assumes "l \<in> set xs" and "P l" and "\<forall>x \<in> set xs. P x \<longrightarrow> x = l"
  shows "find P xs = Some l"
  using assms
proof (induction xs)
  case Nil
  then show ?case by simp
next
  case (Cons a xs)
  show ?case
  proof (cases "P a")
    case True
    with Cons.prems(3) have "a = l" by simp
    with True show ?thesis by simp
  next
    case False
    with Cons.prems(2) have "a \<noteq> l" by blast
    with Cons.prems(1) have "l \<in> set xs" by simp
    moreover from Cons.prems(3) have "\<forall>x \<in> set xs. P x \<longrightarrow> x = l" by simp
    ultimately have "find P xs = Some l" using Cons.IH Cons.prems(2) by blast
    with False show ?thesis by simp
  qed
qed

text \<open>
  Claim C6. With a hub \<open>h\<close> selected (a non-empty string; the empty string means that
  no hub is selected, and the total is then 0), \<^verbatim>\<open>$totalDriveMins\<close> is the sum, over the
  entries that have a logistics entry whose \<^verbatim>\<open>hub_name\<close> equals \<open>h\<close>, of the drive time of
  that entry; an entry without a match adds nothing. A cart of one entry with a 40-minute
  logistics entry for \<open>h\<close> and one entry with none for \<open>h\<close> totals 40, in either order.
\<close>

theorem totalDriveMins_spec:
  "totalDriveMins items '''' = 0 \<and>
   (h \<noteq> '''' \<longrightarrow> totalDriveMins items h = spec_totalDriveMins items h) \<and>
   (h \<noteq> '''' \<and> l \<in> set (logistics p) \<and> hub_name l = h \<and> drive_time_mins l = 40 \<and>
    (\<forall>x \<in> set (logistics p). hub_name x = h \<longrightarrow> x = l) \<and>
    (\<forall>x \<in> set (logistics q). hub_name x \<noteq> h)
      \<longrightarrow> totalDriveMins [p, q] h = 40 \<and> totalDriveMins [q, p] h = 40)"
proof (intro conjI impI)
  show "totalDriveMins items '''' = 0"
    by (simp add: totalDriveMins_def)
next
  assume "h \<noteq> ''''"
  then show "totalDriveMins items h = spec_totalDriveMins items h"
    by (simp add: totalDriveMins_def totalDriveLoop_acc)
next
  assume a: "h \<noteq> '''' \<and> l \<in> set (logistics p) \<and> hub_name l = h \<and> drive_time_mins l = 40 \<and>
    (\<forall>x \<in> set (logistics p). hub_name x = h \<longrightarrow> x = l) \<and>
    (\<forall>x \<in> set (logistics q). hub_name x \<noteq> h)"
  from a have hne: "h \<noteq> []" and lin: "l \<in> set (logistics p)" and lh: "hub_name l = h"
    and l40: "drive_time_mins l = 40"
    and uniq: "\<forall>x \<in> set (logistics p). hub_name x = h \<longrightarrow> x = l"
    and qno: "\<forall>x \<in> set (logistics q). hub_name x \<noteq> h"
    by blast+
  have fp: "find (\<lambda>x. hub_name x = h) (logistics p) = Some l"
    using lin lh uniq by (rule find_unique)
  have fq: "find (\<lambda>x. hub_name x = h) (logistics q) = None"
    using qno by (simp add: find_None_iff)
  show "totalDriveMins [p, q] h = 40"
    using hne l40 by (simp add: totalDriveMins_def fp fq)
  show "totalDriveMins [q, p] h = 40"
    using hne l40 by (simp add: totalDriveMins_def fp fq)
qed

theorem totalDriveMins_spec_witness:
  "''Dibrugarh Airport'' \<noteq> '''' \<and> dibrugarh_40 \<in> set (logistics P3) \<and>
   hub_name dibrugarh_40 = ''Dibrugarh Airport'' \<and> drive_time_mins dibrugarh_40 = 40 \<and>
   filter (\<lambda>x. hub_name x = ''Dibrugarh Airport'') (logistics P3) = [dibrugarh_40] \<and>
   filter (\<lambda>x. hub_name x = ''Dibrugarh Airport'') (logistics P1) = [] \<and>
   totalDriveMins [P3, P1] ''Dibrugarh Airport'' = 40 \<and>
   totalDriveMins [P3, P1] ''Dibrugarh Airport'' = spec_totalDriveMins [P3, P1] ''Dibrugarh Airport''"
  using totalDriveMins_spec [of "[P3, P1]" "''Dibrugarh Airport''" dibrugarh_40 P3 P1]
  by (simp add: P1_def P3_def guwahati_30_def dibrugarh_40_def)

section \<open>Great-circle distance\<close>

text \<open>
  Claim C9. Over the real numbers the haversine distance is symmetric in its two points
  and zero between a point and itself.
\<close>

theorem haversine_symmetric_zero:
  "haversine lat1 lon1 lat2 lon2 = haversine lat2 lon2 lat1 lon1 \<and> haversine lat1 lon1 lat1 lon1 = 0"
proof -
  have neg: "(sin (((y - x) * pi / 180) / 2))\<^sup>2 = (sin (((x - y) * pi / 180) / 2))\<^sup>2" for x y :: real
  proof -
    have "((y - x) * pi / 180) / 2 = - (((x - y) * pi / 180) / 2)"
      by (simp add: field_simps)
    then show ?thesis by (simp only: sin_minus power2_minus)
  qed
  have sym: "haversine lat1 lon1 lat2 lon2 = haversine lat2 lon2 lat1 lon1"
    unfolding haversine_def Let_def
    by (simp only: neg [of lat1 lat2] neg [of lon1 lon2] mult.commute [of "cos ((lat1 * pi) / 180)"])
  have zero: "haversine lat1 lon1 lat1 lon1 = 0"
    by (simp add: haversine_def)
  from sym zero show ?thesis by simp
qed

section \<open>The itinerary of an empty cart\<close>

lemmas show_eval = fmtDrive_def showInt_def showNat.simps digit_def

text \<open>
  Claim C1 fails as stated: the itinerary of an empty cart with no hub is not the title
  line alone, since the closing line is always added.
\<close>

theorem formatItinerary_empty_cart_counterexample:
  "formatItineraryForWhatsApp sample_show [] '''' 0 \<noteq> ''*My Northeast India Trip*''"
  by (simp add: formatItineraryForWhatsApp_def)

text \<open>
  Claim C1, amended. For an empty grouped view and no hub, the itinerary is the title
  line, an empty line and the closing line \<^verbatim>\<open>Planned with Northeast Explorer\<close>, with no
  group section. With a hub selected and an empty grouped view, the hub line, the line of
  the total drive time and an empty line come between them, and nothing else; the function
  has a result on every input.
\<close>

theorem formatItinerary_empty_cart:
  "formatItineraryForWhatsApp showNumber [] '''' totalMins =
     ''*My Northeast India Trip*\<newline>\<newline>Planned with Northeast Explorer'' \<and>
   (hub \<noteq> '''' \<longrightarrow>
      formatItineraryForWhatsApp showNumber [] hub totalMins =
        ''*My Northeast India Trip*\<newline>\<newline>Starting from: '' @ hub
        @ ''\<newline>Total drive time: '' @ fmtDrive totalMins
        @ '' (approx.)\<newline>\<newline>Planned with Northeast Explorer'')"
  by (simp add: formatItineraryForWhatsApp_def)

theorem formatItinerary_empty_cart_witness:
  "''Guwahati Airport'' \<noteq> '''' \<and>
   formatItineraryForWhatsApp sample_show [] ''Guwahati Airport'' 135 =
     ''*My Northeast India Trip*\<newline>\<newline>Starting from: Guwahati Airport\<newline>Total drive time: 2h 15m (approx.)\<newline>\<newline>Planned with Northeast Explorer''"
  using formatItinerary_empty_cart [of sample_show 135 "''Guwahati Airport''"]
  by (simp add: show_eval)

section \<open>Ranking of the hubs\<close>

subsection \<open>First occurrences and precedence\<close>





lemma before_Nil: "before [] a b = False"
  by (simp add: before_def)



subsection \<open>The counting map\<close>











subsection \<open>The stable sort\<close>






subsection \<open>Rows counted and entries counted\<close>






end
